theory Spec2Isabelle
  imports Main "HOL-Library.Word"
begin

section \<open>Ginkgo's core DSL (core_dsl.go)\<close>

text \<open>
  The file \<^verbatim>\<open>core_dsl.go\<close> is the public face of the framework: it owns a handful of
  package-level variables, and every function in it is a short sequence of calls into
  collaborators that live in other packages (the Failer, the Suite, the parallel client,
  the output interceptor, the flag set). The embedding keeps the package-level variables
  in a record that is passed through every function, turns \<^verbatim>\<open>os.Exit\<close> and \<^verbatim>\<open>panic\<close> into
  results of their own, and records each call into a collaborator: what the call
  returns is a parameter, that the call was made (and in which order) is part of the state.
\<close>

subsection \<open>Values\<close>

text \<open>
  The fields of \<^verbatim>\<open>types.SuiteConfig\<close> and \<^verbatim>\<open>types.ReporterConfig\<close> that
  \<^verbatim>\<open>core_dsl.go\<close> reads. Both records are extensible, so the remaining fields of the Go
  structs ride along in the record's extension slot.
\<close>

record SuiteConfig =
  RandomSeed :: int
  ParallelProcess :: int
  ParallelTotal :: int
  ParallelHost :: string
  OutputInterceptorMode :: string
  Timeout :: int

record ReporterConfig =
  NoColor :: bool
  Verbose :: bool

type_synonym Labels = "string list"

text \<open>
  An \<^verbatim>\<open>interface{}\<close> argument, classified the way the type switch of \<^verbatim>\<open>RunSpecs\<close> and
  the decorator constants \<^verbatim>\<open>internal.Focus\<close> and \<^verbatim>\<open>internal.Pending\<close> need it. Every other
  dynamic type (a body closure, another decorator, a pointer to a config, nil) is
  \<open>VOther\<close>, tagged with a printable description.
\<close>

datatype go_value =
    VSuiteConfig SuiteConfig
  | VReporterConfig ReporterConfig
  | VLabels Labels
  | Focus
  | Pending
  | VOther string

record CodeLocation =
  FileName :: string
  LineNumber :: int

text \<open>The errors built by \<^verbatim>\<open>types.GinkgoErrors\<close> here, and errors handed back by collaborators.\<close>

datatype ginkgo_error =
    RerunningSuite
  | UnknownTypePassedToRunSpecs go_value
  | UnreachableParallelHost string
  | UncaughtGinkgoPanic CodeLocation
  | ExternalError string

text \<open>What a \<^verbatim>\<open>panic\<close> carries: the framework's own sentinel error, or anything else.\<close>

datatype payload =
    GinkgoErrorPayload ginkgo_error
  | RuntimeErrorPayload string
  | OtherPayload string

datatype OutputInterceptor =
    NoopOutputInterceptor
  | OSGlobalReassigningOutputInterceptor
  | GenericOutputInterceptor

datatype Client = NewClient string

datatype Reporter = DefaultReporter ReporterConfig | NoopReporter

datatype WriterMode = WriterModeStreamAndBuffer | WriterModeBufferOnly

datatype NodeType = NodeTypeContainer | NodeTypeIt

text \<open>
  The Failer (\<^verbatim>\<open>global.Failer\<close>) is outside this file. It is represented by the calls it
  has received, one constructor per method; what it retains of them is its own business.
\<close>

datatype failer_call =
    FailerFail string CodeLocation
  | FailerSkip string CodeLocation
  | FailerAbortSuite string CodeLocation
  | FailerPanic CodeLocation payload

text \<open>The arguments of \<^verbatim>\<open>global.Suite.Run\<close> that are decided in \<^verbatim>\<open>RunSpecs\<close>.\<close>

record run_call =
  run_description :: string
  run_suiteLabels :: Labels
  run_suitePath :: string
  run_reporter :: Reporter
  run_writerMode :: WriterMode
  run_outputInterceptor :: "OutputInterceptor option"
  run_client :: "Client option"
  run_suiteConfig :: SuiteConfig

text \<open>Calls into collaborators and writes to the console, in the order they happen.\<close>

datatype event =
    EvInterceptorShutdown OutputInterceptor
  | EvClientClose Client
  | EvClientConnect Client
  | EvStderrPrintln ginkgo_error
  | EvStderrConfigurationIssues
  | EvStderrPrintf ginkgo_error
  | EvRegisterReportAfterSuiteNode ReporterConfig
  | EvSuiteBuildTree
  | EvSuiteRun run_call
  | EvValidateDeprecations
  | EvStderrDeprecationsReport
  | EvTestingTFail
  | EvStdoutPassFocused

subsection \<open>Package state and collaborators\<close>

text \<open>
  The package-level variables \<^verbatim>\<open>suiteDidRun\<close>, \<^verbatim>\<open>suiteConfig\<close>, \<^verbatim>\<open>reporterConfig\<close>,
  \<^verbatim>\<open>outputInterceptor\<close> and \<^verbatim>\<open>client\<close> (nil is \<open>None\<close>), the mode of \<^verbatim>\<open>GinkgoWriter\<close>,
  the calls received by the Failer, the nodes handed to \<^verbatim>\<open>global.Suite.PushNode\<close>, and
  the trace of events.
\<close>

record 'node world =
  suiteDidRun :: bool
  suiteConfig :: SuiteConfig
  reporterConfig :: ReporterConfig
  outputInterceptor :: "OutputInterceptor option"
  client :: "Client option"
  writerMode :: WriterMode
  failerCalls :: "failer_call list"
  pushedNodes :: "'node list"
  trace :: "event list"

text \<open>
  What the collaborators answer. \<open>VetConfig\<close> is \<^verbatim>\<open>types.VetConfig\<close> at the flag set built
  by \<^verbatim>\<open>init\<close>; \<open>Connect\<close> is \<^verbatim>\<open>client.Connect()\<close>; \<open>BuildTree\<close>, \<open>PushNode\<close> and \<open>Run\<close> are
  the methods of \<^verbatim>\<open>global.Suite\<close> (the first two may depend on the nodes pushed so far);
  \<open>NewNode\<close> is \<^verbatim>\<open>internal.NewNode\<close> at the package's deprecation tracker, returning a
  node and the errors found in the arguments; \<open>Getwd\<close> and \<open>Abs\<close> return a value and an
  error as in Go; \<open>Getenv\<close> gives the value of an environment variable as the code points
  that \<^verbatim>\<open>strings.TrimSpace\<close> decodes from it.
\<close>

record 'node externals =
  VetConfig :: "SuiteConfig \<Rightarrow> ReporterConfig \<Rightarrow> ginkgo_error list"
  Connect :: "Client \<Rightarrow> bool"
  WillGenerateReport :: "ReporterConfig \<Rightarrow> bool"
  BuildTree :: "'node list \<Rightarrow> ginkgo_error option"
  Getwd :: "string \<times> ginkgo_error option"
  Abs :: "string \<Rightarrow> string \<times> ginkgo_error option"
  Run :: "run_call \<Rightarrow> bool \<times> bool"
  DidTrackDeprecations :: bool
  Getenv :: "string \<Rightarrow> nat list"
  GINKGO_FOCUS_EXIT_CODE :: int
  NewNode :: "'node list \<Rightarrow> NodeType \<Rightarrow> string \<Rightarrow> go_value list \<Rightarrow> 'node \<times> ginkgo_error list"
  PushNode :: "'node list \<Rightarrow> 'node \<Rightarrow> ginkgo_error option"

text \<open>
  How a function of the file ends: the process exits with a status (\<^verbatim>\<open>os.Exit\<close>, which
  runs no deferred call), a panic unwinds with the value it was raised with, or the
  function returns. The value of a panic is an \<^verbatim>\<open>interface{}\<close>: \<open>None\<close> is \<^verbatim>\<open>panic(nil)\<close>.
  Each result carries the state at that moment.
\<close>

datatype ('a, 'node) step =
    Exit int "'node world"
  | Panicked "payload option" "'node world"
  | Next 'a "'node world"

definition and_then ::
  "('a, 'node) step \<Rightarrow> ('a \<Rightarrow> 'node world \<Rightarrow> ('b, 'node) step) \<Rightarrow> ('b, 'node) step" where
  "and_then m f = (case m of Exit c w \<Rightarrow> Exit c w | Panicked p w \<Rightarrow> Panicked p w | Next a w \<Rightarrow> f a w)"

definition emit :: "event \<Rightarrow> 'node world \<Rightarrow> 'node world" where
  "emit e w = w\<lparr>trace := trace w @ [e]\<rparr>"

definition nil_dereference :: payload where
  "nil_dereference = RuntimeErrorPayload ''invalid memory address or nil pointer dereference''"

subsection \<open>exitIfErr and exitIfErrors\<close>

definition shutdown_if_present :: "'node world \<Rightarrow> 'node world" where
  "shutdown_if_present w =
     (case outputInterceptor w of None \<Rightarrow> w | Some i \<Rightarrow> emit (EvInterceptorShutdown i) w)"

definition close_if_present :: "'node world \<Rightarrow> 'node world" where
  "close_if_present w = (case client w of None \<Rightarrow> w | Some c \<Rightarrow> emit (EvClientClose c) w)"

definition exitIfErr :: "ginkgo_error option \<Rightarrow> 'node world \<Rightarrow> (unit, 'node) step" where
  "exitIfErr err w =
     (case err of
        None \<Rightarrow> Next () w
      | Some e \<Rightarrow> Exit 1 (emit (EvStderrPrintln e) (close_if_present (shutdown_if_present w))))"

definition exitIfErrors :: "ginkgo_error list \<Rightarrow> 'node world \<Rightarrow> (unit, 'node) step" where
  "exitIfErrors errors w =
     (if length errors > 0
      then Exit 1 (foldl (\<lambda>w e. emit (EvStderrPrintln e) w)
                         (close_if_present (shutdown_if_present w)) errors)
      else Next () w)"

subsection \<open>Strings\<close>

text \<open>
  \<^verbatim>\<open>strings.ToLower\<close> on the bytes of a string: the letters A to Z are mapped, every other
  byte is kept. Go also maps upper-case letters outside ASCII, but a string with a byte
  outside ASCII is lower-cased to one that still has such a byte, or the letter k or i
  (from the Kelvin sign and the dotted capital I); it equals neither of the two words
  compared against below, in Go as here.
\<close>

definition toLowerByte :: "char \<Rightarrow> char" where
  "toLowerByte c =
     (let n = (of_char c :: nat) in if 65 \<le> n \<and> n \<le> 90 then char_of (n + 32) else c)"

definition ToLower :: "string \<Rightarrow> string" where
  "ToLower s = map toLowerByte s"

text \<open>
  \<^verbatim>\<open>unicode.IsSpace\<close> on a code point, and \<^verbatim>\<open>strings.TrimSpace\<close> on a string given as its
  code points: leading and trailing white space is removed.
\<close>

definition IsSpace :: "nat \<Rightarrow> bool" where
  "IsSpace r =
     (r = 9 \<or> r = 10 \<or> r = 11 \<or> r = 12 \<or> r = 13 \<or> r = 32 \<or> r = 133 \<or> r = 160
      \<or> r = 5760 \<or> (8192 \<le> r \<and> r \<le> 8202) \<or> r = 8232 \<or> r = 8233 \<or> r = 8239
      \<or> r = 8287 \<or> r = 12288)"

definition TrimSpace :: "nat list \<Rightarrow> nat list" where
  "TrimSpace s = rev (dropWhile IsSpace (rev (dropWhile IsSpace s)))"

subsection \<open>RunSpecs\<close>

text \<open>
  One round of the loop over \<^verbatim>\<open>args\<close> (lines 215 to 226): the accumulator is the suite
  labels, the configuration errors and the state.
\<close>

definition RunSpecs_arg ::
  "Labels \<times> ginkgo_error list \<times> 'node world \<Rightarrow> go_value
     \<Rightarrow> Labels \<times> ginkgo_error list \<times> 'node world" where
  "RunSpecs_arg acc arg =
     (case acc of (suiteLabels, configErrors, w) \<Rightarrow>
        (case arg of
           VSuiteConfig c \<Rightarrow> (suiteLabels, configErrors, w\<lparr>suiteConfig := c\<rparr>)
         | VReporterConfig c \<Rightarrow> (suiteLabels, configErrors, w\<lparr>reporterConfig := c\<rparr>)
         | VLabels l \<Rightarrow> (suiteLabels @ l, configErrors, w)
         | _ \<Rightarrow> (suiteLabels, configErrors @ [UnknownTypePassedToRunSpecs arg], w)))"

text \<open>
  Lines 208 to 236: the re-run check, the latch, the loop over the arguments, and the two
  gates on configuration errors. The second gate writes to the error stream and exits
  by itself, without \<^verbatim>\<open>exitIfErrors\<close>.
\<close>

definition RunSpecs_configure ::
  "'node externals \<Rightarrow> go_value list \<Rightarrow> 'node world \<Rightarrow> (Labels, 'node) step" where
  "RunSpecs_configure ext args w0 =
     and_then (if suiteDidRun w0 then exitIfErr (Some RerunningSuite) w0 else Next () w0)
       (\<lambda>_ w1.
          case foldl RunSpecs_arg ([], [], w1\<lparr>suiteDidRun := True\<rparr>) args of
            (suiteLabels, configErrors, w2) \<Rightarrow>
              and_then (exitIfErrors configErrors w2)
                (\<lambda>_ w3.
                   let configErrors = VetConfig ext (suiteConfig w3) (reporterConfig w3) in
                   if length configErrors > 0
                   then Exit 1 (foldl (\<lambda>w e. emit (EvStderrPrintf e) w)
                                      (emit EvStderrConfigurationIssues w3) configErrors)
                   else Next suiteLabels w3))"

text \<open>
  Lines 238 to 259. The result is the reporter and the client whose \<^verbatim>\<open>Close\<close> has been
  deferred, if any. After a failed \<^verbatim>\<open>Connect\<close> the variable \<^verbatim>\<open>client\<close> is nil again and
  \<^verbatim>\<open>exitIfErr\<close> receives an error, so the \<^verbatim>\<open>defer\<close> statement behind it is never reached;
  on a nil client it would panic.
\<close>

definition RunSpecs_topology ::
  "'node externals \<Rightarrow> 'node world \<Rightarrow> (Reporter \<times> Client option, 'node) step" where
  "RunSpecs_topology ext w0 =
     (if ParallelTotal (suiteConfig w0) = 1
      then Next (DefaultReporter (reporterConfig w0), None)
                (w0\<lparr>outputInterceptor := Some NoopOutputInterceptor, client := None\<rparr>)
      else
        let mode = ToLower (OutputInterceptorMode (suiteConfig w0));
            w1 = w0\<lparr>outputInterceptor :=
                      Some (if mode = ''swap'' then OSGlobalReassigningOutputInterceptor
                            else if mode = ''none'' then NoopOutputInterceptor
                            else GenericOutputInterceptor)\<rparr>;
            c = NewClient (ParallelHost (suiteConfig w1));
            w2 = emit (EvClientConnect c) (w1\<lparr>client := Some c\<rparr>)
        in and_then
             (if \<not> Connect ext c
              then exitIfErr (Some (UnreachableParallelHost (ParallelHost (suiteConfig w2))))
                             (w2\<lparr>client := None\<rparr>)
              else Next () w2)
             (\<lambda>_ w3. case client w3 of
                        None \<Rightarrow> Panicked (Some nil_dereference) w3
                      | Some c' \<Rightarrow> Next (NoopReporter, Some c') w3))"

text \<open>Lines 261 to 266, with \<^verbatim>\<open>GinkgoWriter\<close> the writer that \<^verbatim>\<open>init\<close> has installed.\<close>

definition RunSpecs_writer :: "'node world \<Rightarrow> 'node world" where
  "RunSpecs_writer w =
     (if Verbose (reporterConfig w) \<and> ParallelTotal (suiteConfig w) = 1
      then w\<lparr>writerMode := WriterModeStreamAndBuffer\<rparr>
      else w\<lparr>writerMode := WriterModeBufferOnly\<rparr>)"

text \<open>
  Lines 268 to 278: the report node, the tree, and the absolute path of the suite.
  \<^verbatim>\<open>registerReportAfterSuiteNodeForAutogeneratedReports\<close> is defined in another file of the
  package; its call is recorded and taken to return.
\<close>

definition RunSpecs_build :: "'node externals \<Rightarrow> 'node world \<Rightarrow> (string, 'node) step" where
  "RunSpecs_build ext w0 =
     (let w1 = (if WillGenerateReport ext (reporterConfig w0)
                then emit (EvRegisterReportAfterSuiteNode (reporterConfig w0)) w0 else w0)
      in and_then (exitIfErr (BuildTree ext (pushedNodes w1)) (emit EvSuiteBuildTree w1))
           (\<lambda>_ w2. and_then (exitIfErr (snd (Getwd ext)) w2)
              (\<lambda>_ w3. and_then (exitIfErr (snd (Abs ext (fst (Getwd ext)))) w3)
                 (\<lambda>_ w4. Next (fst (Abs ext (fst (Getwd ext)))) w4))))"

text \<open>A deferred \<^verbatim>\<open>client.Close()\<close> runs when the function returns or panics.\<close>

definition run_deferred :: "Client option \<Rightarrow> 'node world \<Rightarrow> 'node world" where
  "run_deferred deferred w = (case deferred of None \<Rightarrow> w | Some c \<Rightarrow> emit (EvClientClose c) w)"

text \<open>
  Lines 280 to 296: the run itself and the three ways out of it. The testing handle
  \<^verbatim>\<open>t\<close> is used for \<^verbatim>\<open>t.Fail()\<close> only, which is recorded as an event.
\<close>

definition suite_run_call ::
  "string \<Rightarrow> Labels \<Rightarrow> Reporter \<Rightarrow> string \<Rightarrow> 'node world \<Rightarrow> run_call" where
  "suite_run_call description suiteLabels reporter suitePath w =
     \<lparr>run_description = description, run_suiteLabels = suiteLabels,
      run_suitePath = suitePath, run_reporter = reporter,
      run_writerMode = writerMode w,
      run_outputInterceptor = outputInterceptor w, run_client = client w,
      run_suiteConfig = suiteConfig w\<rparr>"

definition RunSpecs_run ::
  "'node externals \<Rightarrow> string \<Rightarrow> Labels \<Rightarrow> Reporter \<Rightarrow> Client option \<Rightarrow> string
     \<Rightarrow> 'node world \<Rightarrow> (bool, 'node) step" where
  "RunSpecs_run ext description suiteLabels reporter deferred suitePath w0 =
     (let call = suite_run_call description suiteLabels reporter suitePath w0;
          passed = fst (Run ext call);
          hasFocusedTests = snd (Run ext call);
          w1 = emit (EvSuiteRun call) w0
      in case outputInterceptor w1 of
           None \<Rightarrow> Panicked (Some nil_dereference) (run_deferred deferred w1)
         | Some i \<Rightarrow>
             let w2 = emit EvValidateDeprecations (emit (EvInterceptorShutdown i) w1);
                 w3 = (if DidTrackDeprecations ext then emit EvStderrDeprecationsReport w2 else w2);
                 w4 = (if \<not> passed then emit EvTestingTFail w3 else w3)
             in if passed \<and> hasFocusedTests
                   \<and> TrimSpace (Getenv ext ''GINKGO_EDITOR_INTEGRATION'') = []
                then Exit (GINKGO_FOCUS_EXIT_CODE ext) (emit EvStdoutPassFocused w4)
                else Next passed (run_deferred deferred w4))"

text \<open>Everything before the run, and \<^verbatim>\<open>RunSpecs\<close> as a whole.\<close>

definition RunSpecs_prepare ::
  "'node externals \<Rightarrow> go_value list \<Rightarrow> 'node world
     \<Rightarrow> (Labels \<times> Reporter \<times> Client option \<times> string, 'node) step" where
  "RunSpecs_prepare ext args w =
     and_then (RunSpecs_configure ext args w)
       (\<lambda>suiteLabels w1. and_then (RunSpecs_topology ext w1)
          (\<lambda>rd w2. and_then (RunSpecs_build ext (RunSpecs_writer w2))
             (\<lambda>suitePath w3. Next (suiteLabels, fst rd, snd rd, suitePath) w3)))"

definition RunSpecs ::
  "'node externals \<Rightarrow> string \<Rightarrow> go_value list \<Rightarrow> 'node world \<Rightarrow> (bool, 'node) step" where
  "RunSpecs ext description args w =
     and_then (RunSpecs_prepare ext args w)
       (\<lambda>p w1. case p of (suiteLabels, reporter, deferred, suitePath) \<Rightarrow>
                  RunSpecs_run ext description suiteLabels reporter deferred suitePath w1)"

subsection \<open>Fail, Skip, AbortSuite and GinkgoRecover\<close>

text \<open>
  \<open>newCodeLocation\<close> stands for \<^verbatim>\<open>types.NewCodeLocationWithStackTrace\<close> as called from the
  function at hand. It is given the number of frames to skip and either returns the
  location found there (\<open>Inr\<close>) or panics itself with a runtime error (\<open>Inl\<close>), as it does
  when the offset makes it cut the stack trace at a negative index. In that case the
  statements after the capture are not reached.
  \<^verbatim>\<open>callerSkip\<close> is a slice of Go \<^verbatim>\<open>int\<close>, taken as 64 bits wide, and \<^verbatim>\<open>skip + 1\<close> wraps.
\<close>

definition Skip ::
  "(64 word \<Rightarrow> payload + CodeLocation) \<Rightarrow> string \<Rightarrow> 64 word list \<Rightarrow> 'node world
     \<Rightarrow> (unit, 'node) step" where
  "Skip newCodeLocation message callerSkip w =
     (let skip = (if length callerSkip > 0 then callerSkip ! 0 else 0)
      in case newCodeLocation (skip + 1) of
           Inl r \<Rightarrow> Panicked (Some r) w
         | Inr cl \<Rightarrow>
             let w1 = w\<lparr>failerCalls := failerCalls w @ [FailerSkip message cl]\<rparr>
             in Panicked (Some (GinkgoErrorPayload (UncaughtGinkgoPanic cl))) w1)"

definition Fail ::
  "(64 word \<Rightarrow> payload + CodeLocation) \<Rightarrow> string \<Rightarrow> 64 word list \<Rightarrow> 'node world
     \<Rightarrow> (unit, 'node) step" where
  "Fail newCodeLocation message callerSkip w =
     (let skip = (if length callerSkip > 0 then callerSkip ! 0 else 0)
      in case newCodeLocation (skip + 1) of
           Inl r \<Rightarrow> Panicked (Some r) w
         | Inr cl \<Rightarrow>
             let w1 = w\<lparr>failerCalls := failerCalls w @ [FailerFail message cl]\<rparr>
             in Panicked (Some (GinkgoErrorPayload (UncaughtGinkgoPanic cl))) w1)"

definition AbortSuite ::
  "(64 word \<Rightarrow> payload + CodeLocation) \<Rightarrow> string \<Rightarrow> 64 word list \<Rightarrow> 'node world
     \<Rightarrow> (unit, 'node) step" where
  "AbortSuite newCodeLocation message callerSkip w =
     (let skip = (if length callerSkip > 0 then callerSkip ! 0 else 0)
      in case newCodeLocation (skip + 1) of
           Inl r \<Rightarrow> Panicked (Some r) w
         | Inr cl \<Rightarrow>
             let w1 = w\<lparr>failerCalls := failerCalls w @ [FailerAbortSuite message cl]\<rparr>
             in Panicked (Some (GinkgoErrorPayload (UncaughtGinkgoPanic cl))) w1)"

text \<open>
  \<open>e\<close> is what \<^verbatim>\<open>recover()\<close> returns in the deferred call: \<open>None\<close> for nil, the value of the
  panic otherwise. The location is captured before \<^verbatim>\<open>Failer.Panic\<close> is called, as an
  argument of the call.
\<close>

definition GinkgoRecover ::
  "(64 word \<Rightarrow> payload + CodeLocation) \<Rightarrow> payload option \<Rightarrow> 'node world
     \<Rightarrow> (unit, 'node) step" where
  "GinkgoRecover newCodeLocation e w =
     (case e of
        None \<Rightarrow> Next () w
      | Some p \<Rightarrow>
          (case newCodeLocation 1 of
             Inl r \<Rightarrow> Panicked (Some r) w
           | Inr cl \<Rightarrow> Next () (w\<lparr>failerCalls := failerCalls w @ [FailerPanic cl p]\<rparr>)))"

text \<open>
  A task whose first statement is \<^verbatim>\<open>defer GinkgoRecover()\<close>: when the body has ended,
  by returning or by a panic, the deferred call runs, and \<^verbatim>\<open>recover()\<close> stops the panic
  and hands over the value it was raised with. For \<^verbatim>\<open>panic(nil)\<close> that value is nil, as
  it is when there is no panic (the behaviour of Go before version 1.21, for which this
  file was written). An exit of the process runs no deferred call.
\<close>

definition with_deferred_GinkgoRecover ::
  "(64 word \<Rightarrow> payload + CodeLocation) \<Rightarrow> ('node world \<Rightarrow> (unit, 'node) step) \<Rightarrow> 'node world
     \<Rightarrow> (unit, 'node) step" where
  "with_deferred_GinkgoRecover newCodeLocation body w =
     (case body w of
        Exit c w1 \<Rightarrow> Exit c w1
      | Panicked v w1 \<Rightarrow> GinkgoRecover newCodeLocation v w1
      | Next _ w1 \<Rightarrow> GinkgoRecover newCodeLocation None w1)"

subsection \<open>What the Failer keeps\<close>

text \<open>
  Modelled from the spec: the Failer itself (\<^verbatim>\<open>global.Failer\<close>, package \<^verbatim>\<open>internal\<close>), which
  is not part of this file. The spec gives the Failure Signal one record per running
  spec and the rule: once set for the current spec, subsequent signals for the same spec
  are ignored, except that a later AbortSuite upgrades any prior Failure or Skip.
  \<open>failer_receive\<close> is one signal arriving at the record, and \<open>failure_signal\<close> the record
  after the calls received since the last reset. Which spec the record is booked on is
  decided by the Suite, which reads and resets it.
\<close>

fun failer_receive :: "failer_call option \<Rightarrow> failer_call \<Rightarrow> failer_call option" where
  "failer_receive None c = Some c"
| "failer_receive (Some (FailerFail m l)) (FailerAbortSuite m' l') = Some (FailerAbortSuite m' l')"
| "failer_receive (Some (FailerSkip m l)) (FailerAbortSuite m' l') = Some (FailerAbortSuite m' l')"
| "failer_receive (Some r) c = Some r"

definition failure_signal :: "failer_call list \<Rightarrow> failer_call option" where
  "failure_signal calls = foldl failer_receive None calls"

subsection \<open>Declaring nodes\<close>

definition pushNode ::
  "'node externals \<Rightarrow> 'node \<times> ginkgo_error list \<Rightarrow> 'node world \<Rightarrow> (bool, 'node) step" where
  "pushNode ext ne w =
     and_then (exitIfErrors (snd ne) w)
       (\<lambda>_ w1. and_then (exitIfErr (PushNode ext (pushedNodes w1) (fst ne))
                                   (w1\<lparr>pushedNodes := pushedNodes w1 @ [fst ne]\<rparr>))
          (\<lambda>_ w2. Next True w2))"

definition Describe ::
  "'node externals \<Rightarrow> string \<Rightarrow> go_value list \<Rightarrow> 'node world \<Rightarrow> (bool, 'node) step" where
  "Describe ext text args w =
     pushNode ext (NewNode ext (pushedNodes w) NodeTypeContainer text args) w"

definition FDescribe ::
  "'node externals \<Rightarrow> string \<Rightarrow> go_value list \<Rightarrow> 'node world \<Rightarrow> (bool, 'node) step" where
  "FDescribe ext text args w =
     (let args1 = args @ [Focus]
      in pushNode ext (NewNode ext (pushedNodes w) NodeTypeContainer text args1) w)"

definition PDescribe ::
  "'node externals \<Rightarrow> string \<Rightarrow> go_value list \<Rightarrow> 'node world \<Rightarrow> (bool, 'node) step" where
  "PDescribe ext text args w =
     (let args1 = args @ [Pending]
      in pushNode ext (NewNode ext (pushedNodes w) NodeTypeContainer text args1) w)"

definition XDescribe ::
  "'node externals \<Rightarrow> string \<Rightarrow> go_value list \<Rightarrow> 'node world \<Rightarrow> (bool, 'node) step" where
  "XDescribe = PDescribe"

definition It ::
  "'node externals \<Rightarrow> string \<Rightarrow> go_value list \<Rightarrow> 'node world \<Rightarrow> (bool, 'node) step" where
  "It ext text args w = pushNode ext (NewNode ext (pushedNodes w) NodeTypeIt text args) w"

definition FIt ::
  "'node externals \<Rightarrow> string \<Rightarrow> go_value list \<Rightarrow> 'node world \<Rightarrow> (bool, 'node) step" where
  "FIt ext text args w =
     (let args1 = args @ [Focus]
      in pushNode ext (NewNode ext (pushedNodes w) NodeTypeIt text args1) w)"

definition PIt ::
  "'node externals \<Rightarrow> string \<Rightarrow> go_value list \<Rightarrow> 'node world \<Rightarrow> (bool, 'node) step" where
  "PIt ext text args w =
     (let args1 = args @ [Pending]
      in pushNode ext (NewNode ext (pushedNodes w) NodeTypeIt text args1) w)"

definition XIt ::
  "'node externals \<Rightarrow> string \<Rightarrow> go_value list \<Rightarrow> 'node world \<Rightarrow> (bool, 'node) step" where
  "XIt = PIt"

subsection \<open>Reading a result, and closed instances\<close>

definition world_of :: "('a, 'node) step \<Rightarrow> 'node world" where
  "world_of r = (case r of Exit c w \<Rightarrow> w | Panicked p w \<Rightarrow> w | Next a w \<Rightarrow> w)"

text \<open>The events that a call has added to the trace it started from.\<close>

definition new_events :: "'node world \<Rightarrow> 'node world \<Rightarrow> event list" where
  "new_events w w' = drop (length (trace w)) (trace w')"

definition builds_or_runs :: "event \<Rightarrow> bool" where
  "builds_or_runs e = (case e of EvSuiteBuildTree \<Rightarrow> True | EvSuiteRun c \<Rightarrow> True | _ \<Rightarrow> False)"

text \<open>The three dynamic types that the type switch of \<^verbatim>\<open>RunSpecs\<close> has a case for.\<close>

definition is_configuration :: "go_value \<Rightarrow> bool" where
  "is_configuration arg =
     (case arg of VSuiteConfig c \<Rightarrow> True | VReporterConfig c \<Rightarrow> True | VLabels l \<Rightarrow> True
      | _ \<Rightarrow> False)"

text \<open>
  A process after \<^verbatim>\<open>init\<close>, with one parallel process configured, and collaborators
  that raise no error and report a passed run without focused specs.
\<close>

definition solo_config :: SuiteConfig where
  "solo_config = \<lparr>RandomSeed = 1, ParallelProcess = 1, ParallelTotal = 1,
     ParallelHost = [], OutputInterceptorMode = [], Timeout = 3600\<rparr>"

definition fresh_world :: "nat world" where
  "fresh_world = \<lparr>suiteDidRun = False, suiteConfig = solo_config,
     reporterConfig = \<lparr>NoColor = False, Verbose = False\<rparr>,
     outputInterceptor = None, client = None, writerMode = WriterModeStreamAndBuffer,
     failerCalls = [], pushedNodes = [], trace = []\<rparr>"

definition quiet_externals :: "nat externals" where
  "quiet_externals = \<lparr>VetConfig = (\<lambda>sc rc. []), Connect = (\<lambda>c. True),
     WillGenerateReport = (\<lambda>rc. False), BuildTree = (\<lambda>ns. None),
     Getwd = (''/suite'', None), Abs = (\<lambda>p. (p, None)), Run = (\<lambda>c. (True, False)),
     DidTrackDeprecations = False, Getenv = (\<lambda>name. []), GINKGO_FOCUS_EXIT_CODE = 197,
     NewNode = (\<lambda>ns t text args. (length ns, [])), PushNode = (\<lambda>ns n. None)\<rparr>"

text \<open>
  A capture for closed examples, in a test file whose call sits on line 10. Pruning the
  stack trace drops its first \<open>2 * (skip + 2)\<close> lines, counted in Go's \<^verbatim>\<open>int\<close>; where that
  count is negative, as it is for the offset -3, the slice expression panics with a
  runtime error. Otherwise a location is returned.
\<close>

definition stack_capture :: "64 word \<Rightarrow> payload + CodeLocation" where
  "stack_capture skip =
     (if sint (2 * (skip + 2)) < 0 then Inl (RuntimeErrorPayload ''slice bounds out of range'')
      else Inr \<lparr>FileName = ''suite_test.go'', LineNumber = 10 + sint skip\<rparr>)"

definition parallel_config :: SuiteConfig where
  "parallel_config = solo_config\<lparr>ParallelTotal := 2, ParallelHost := ''127.0.0.1:4000'',
     OutputInterceptorMode := ''SWAP''\<rparr>"

definition verbose_config :: ReporterConfig where
  "verbose_config = \<lparr>NoColor = False, Verbose = True\<rparr>"

text \<open>Collaborators as above, except for one answer each.\<close>

definition focused_externals :: "nat externals" where
  "focused_externals = quiet_externals\<lparr>Run := (\<lambda>c. (True, True))\<rparr>"

definition strict_flag_externals :: "nat externals" where
  "strict_flag_externals =
     quiet_externals\<lparr>VetConfig := (\<lambda>sc rc. [ExternalError ''invalid flag''])\<rparr>"

definition unreachable_externals :: "nat externals" where
  "unreachable_externals = quiet_externals\<lparr>Connect := (\<lambda>c. False)\<rparr>"

definition marked_externals :: "nat externals" where
  "marked_externals = focused_externals\<lparr>Getenv := (\<lambda>name. [32, 49])\<rparr>"

definition blank_externals :: "nat externals" where
  "blank_externals = focused_externals\<lparr>Getenv := (\<lambda>name. [32, 9, 160])\<rparr>"

text \<open>The state in which a first, solo run of the fresh process returns.\<close>

definition after_solo_run :: "nat world" where
  "after_solo_run =
     fresh_world\<lparr>suiteDidRun := True, outputInterceptor := Some NoopOutputInterceptor,
       writerMode := WriterModeBufferOnly,
       trace := [EvSuiteBuildTree,
         EvSuiteRun \<lparr>run_description = ''suite'', run_suiteLabels = [],
           run_suitePath = ''/suite'',
           run_reporter = DefaultReporter \<lparr>NoColor = False, Verbose = False\<rparr>,
           run_writerMode = WriterModeBufferOnly,
           run_outputInterceptor = Some NoopOutputInterceptor, run_client = None,
           run_suiteConfig = solo_config\<rparr>,
         EvInterceptorShutdown NoopOutputInterceptor, EvValidateDeprecations]\<rparr>"

text \<open>
  A state has released its resources when the interceptor in \<^verbatim>\<open>outputInterceptor\<close>, if
  there is one, has been shut down, and the client in \<^verbatim>\<open>client\<close>, if there is one, has
  been closed.
\<close>

definition released :: "'node world \<Rightarrow> bool" where
  "released w =
     ((case outputInterceptor w of None \<Rightarrow> True
       | Some i \<Rightarrow> EvInterceptorShutdown i \<in> set (trace w))
      \<and> (case client w of None \<Rightarrow> True | Some c \<Rightarrow> EvClientClose c \<in> set (trace w)))"

section \<open>Properties\<close>

subsection \<open>Sequencing\<close>

lemma and_then_Exit [simp]: "and_then (Exit c w) f = Exit c w"
  by (simp add: and_then_def)

lemma and_then_Panicked [simp]: "and_then (Panicked p w) f = Panicked p w"
  by (simp add: and_then_def)

lemma and_then_Next [simp]: "and_then (Next a w) f = f a w"
  by (simp add: and_then_def)

lemma and_then_eq_Next:
  "and_then m f = Next b w' \<longleftrightarrow> (\<exists>a w. m = Next a w \<and> f a w = Next b w')"
  by (cases m) simp_all

lemma exitIfErr_None [simp]: "exitIfErr None w = Next () w"
  by (simp add: exitIfErr_def)

lemma exitIfErr_Some [simp]:
  "exitIfErr (Some e) w = Exit 1 (emit (EvStderrPrintln e) (close_if_present (shutdown_if_present w)))"
  by (simp add: exitIfErr_def)

lemma exitIfErr_eq_Next: "exitIfErr err w = Next u w' \<longleftrightarrow> err = None \<and> w' = w"
  by (cases err) auto

lemma foldl_emit: "foldl (\<lambda>w e. emit (f e) w) w es = w\<lparr>trace := trace w @ map f es\<rparr>"
  by (induction es arbitrary: w) (simp_all add: emit_def)

lemma exitIfErrors_Nil [simp]: "exitIfErrors [] w = Next () w"
  by (simp add: exitIfErrors_def)

lemma exitIfErrors_nonempty:
  "errors \<noteq> [] \<Longrightarrow>
   exitIfErrors errors w =
     Exit 1 ((close_if_present (shutdown_if_present w))
               \<lparr>trace := trace (close_if_present (shutdown_if_present w)) @ map EvStderrPrintln errors\<rparr>)"
  by (simp add: exitIfErrors_def foldl_emit)

lemma exitIfErrors_eq_Next: "exitIfErrors errors w = Next u w' \<longleftrightarrow> errors = [] \<and> w' = w"
  by (cases errors) (auto simp: exitIfErrors_def)

subsection \<open>GinkgoRecover without a panic\<close>

text \<open>
  C10. When \<^verbatim>\<open>recover()\<close> yields nil, \<^verbatim>\<open>GinkgoRecover\<close> returns and the whole state is the
  one it was called in: the Failer has received no call, and the package variables, the
  pushed nodes and the trace are untouched.
\<close>

theorem GinkgoRecover_nil_is_noop:
  "GinkgoRecover newCodeLocation None w = Next () w"
  by (simp add: GinkgoRecover_def)

subsection \<open>Fail, Skip and AbortSuite\<close>

lemma stack_capture_values:
  "stack_capture (- 3) = Inl (RuntimeErrorPayload ''slice bounds out of range'')"
  "stack_capture (- 4) = Inl (RuntimeErrorPayload ''slice bounds out of range'')"
  "stack_capture 1 = Inr \<lparr>FileName = ''suite_test.go'', LineNumber = 11\<rparr>"
  "stack_capture 3 = Inr \<lparr>FileName = ''suite_test.go'', LineNumber = 13\<rparr>"
  by (simp_all add: stack_capture_def)

text \<open>
  \<^verbatim>\<open>Fail("boom", -4)\<close>: the capture at offset -3 panics with a runtime error. That panic
  is what unwinds; the Failer has received nothing and no sentinel has been raised.
\<close>

theorem Fail_negative_offset_panics_in_capture:
  "Fail stack_capture ''boom'' [- 4] fresh_world =
     Panicked (Some (RuntimeErrorPayload ''slice bounds out of range'')) fresh_world
   \<and> failerCalls (world_of (Fail stack_capture ''boom'' [- 4] fresh_world)) = []"
  by (simp add: Fail_def Let_def stack_capture_values world_of_def fresh_world_def)

text \<open>
  C3, as the code has it. For every message and every \<^verbatim>\<open>callerSkip\<close> slice, let the offset
  be the first element of the slice, or 0 when it is empty. If the capture at the offset
  plus one returns a location, each of \<^verbatim>\<open>Fail\<close>, \<^verbatim>\<open>Skip\<close> and \<^verbatim>\<open>AbortSuite\<close> hands the message
  and that location to the Failer method of its own kind and ends in a panic whose
  payload is the sentinel error built from the same location; the state in which the
  panic starts already holds the call to the Failer, as the last one, and differs from
  the state before in nothing else. If the capture panics, each of the three ends in
  that panic, in the state it was called in.
\<close>

theorem Fail_Skip_AbortSuite_signal_then_panic:
  fixes callerSkip :: "64 word list"
  defines "skip \<equiv> (case callerSkip of [] \<Rightarrow> 0 | s # rest \<Rightarrow> s)"
  shows "(ncl (skip + 1) = Inr cl \<longrightarrow>
            Fail ncl message callerSkip w =
              Panicked (Some (GinkgoErrorPayload (UncaughtGinkgoPanic cl)))
                       (w\<lparr>failerCalls := failerCalls w @ [FailerFail message cl]\<rparr>)
          \<and> Skip ncl message callerSkip w =
              Panicked (Some (GinkgoErrorPayload (UncaughtGinkgoPanic cl)))
                       (w\<lparr>failerCalls := failerCalls w @ [FailerSkip message cl]\<rparr>)
          \<and> AbortSuite ncl message callerSkip w =
              Panicked (Some (GinkgoErrorPayload (UncaughtGinkgoPanic cl)))
                       (w\<lparr>failerCalls := failerCalls w @ [FailerAbortSuite message cl]\<rparr>))
       \<and> (ncl (skip + 1) = Inl r \<longrightarrow>
            Fail ncl message callerSkip w = Panicked (Some r) w
          \<and> Skip ncl message callerSkip w = Panicked (Some r) w
          \<and> AbortSuite ncl message callerSkip w = Panicked (Some r) w)"
  by (cases callerSkip) (simp_all add: skip_def Fail_def Skip_def AbortSuite_def Let_def)

text \<open>
  Without an offset and with the offset 2 the signal is recorded and the sentinel raised,
  at lines 11 and 13; with the offset -5 the capture's own panic unwinds.
\<close>

theorem Fail_Skip_AbortSuite_signal_then_panic_witness:
  "Fail stack_capture ''boom'' [] fresh_world =
     Panicked (Some (GinkgoErrorPayload
                 (UncaughtGinkgoPanic \<lparr>FileName = ''suite_test.go'', LineNumber = 11\<rparr>)))
       (fresh_world\<lparr>failerCalls :=
          [FailerFail ''boom'' \<lparr>FileName = ''suite_test.go'', LineNumber = 11\<rparr>]\<rparr>)
   \<and> Skip stack_capture ''later'' [2, 7] fresh_world =
     Panicked (Some (GinkgoErrorPayload
                 (UncaughtGinkgoPanic \<lparr>FileName = ''suite_test.go'', LineNumber = 13\<rparr>)))
       (fresh_world\<lparr>failerCalls :=
          [FailerSkip ''later'' \<lparr>FileName = ''suite_test.go'', LineNumber = 13\<rparr>]\<rparr>)
   \<and> AbortSuite stack_capture ''stop'' [- 5] fresh_world =
     Panicked (Some (RuntimeErrorPayload ''slice bounds out of range'')) fresh_world"
proof -
  have a: "stack_capture (0 + 1) = Inr \<lparr>FileName = ''suite_test.go'', LineNumber = 11\<rparr>"
    and b: "stack_capture (2 + 1) = Inr \<lparr>FileName = ''suite_test.go'', LineNumber = 13\<rparr>"
    and c: "stack_capture (- 5 + 1) = Inl (RuntimeErrorPayload ''slice bounds out of range'')"
    by (simp_all add: stack_capture_values)
  from Fail_Skip_AbortSuite_signal_then_panic
         [where ncl = stack_capture and callerSkip = "[]" and message = "''boom''"
          and w = fresh_world and cl = "\<lparr>FileName = ''suite_test.go'', LineNumber = 11\<rparr>"]
       Fail_Skip_AbortSuite_signal_then_panic
         [where ncl = stack_capture and callerSkip = "[2, 7]" and message = "''later''"
          and w = fresh_world and cl = "\<lparr>FileName = ''suite_test.go'', LineNumber = 13\<rparr>"]
       Fail_Skip_AbortSuite_signal_then_panic
         [where ncl = stack_capture and callerSkip = "[- 5]" and message = "''stop''"
          and w = fresh_world and r = "RuntimeErrorPayload ''slice bounds out of range''"]
       a b c
  show ?thesis by (simp add: fresh_world_def)
qed

subsection \<open>GinkgoRecover with a panic in flight\<close>

lemma failure_signal_snoc:
  "failure_signal (calls @ [c]) = failer_receive (failure_signal calls) c"
  by (simp add: failure_signal_def)

lemma failer_receive_Panic_kept: "failer_receive (Some r) (FailerPanic l p) = Some r"
  by (cases r) simp_all

lemma failer_receive_set: "failer_receive s c \<noteq> None"
  by (cases "(s, c)" rule: failer_receive.cases) simp_all

text \<open>
  A task defers \<^verbatim>\<open>GinkgoRecover\<close> and calls \<^verbatim>\<open>Fail("boom")\<close>. The Failer receives the
  Failure from \<^verbatim>\<open>Fail\<close> and then the Panic call with the sentinel, and the record it keeps
  is the plain Failure, not one of the Panic kind. And in a task that ends in
  \<^verbatim>\<open>panic(nil)\<close> the panic is stopped and nothing is forwarded.
\<close>

theorem Fail_in_recovered_task_is_plain_Failure:
  "with_deferred_GinkgoRecover stack_capture (Fail stack_capture ''boom'' []) fresh_world =
     Next () (fresh_world\<lparr>failerCalls :=
       [FailerFail ''boom'' \<lparr>FileName = ''suite_test.go'', LineNumber = 11\<rparr>,
        FailerPanic \<lparr>FileName = ''suite_test.go'', LineNumber = 11\<rparr>
          (GinkgoErrorPayload
             (UncaughtGinkgoPanic \<lparr>FileName = ''suite_test.go'', LineNumber = 11\<rparr>))]\<rparr>)
   \<and> failure_signal (failerCalls (world_of
        (with_deferred_GinkgoRecover stack_capture (Fail stack_capture ''boom'' []) fresh_world))) =
       Some (FailerFail ''boom'' \<lparr>FileName = ''suite_test.go'', LineNumber = 11\<rparr>)
   \<and> with_deferred_GinkgoRecover stack_capture (\<lambda>w. Panicked None w) fresh_world =
       Next () fresh_world"
  by (simp add: with_deferred_GinkgoRecover_def GinkgoRecover_def Fail_def Let_def
        stack_capture_values world_of_def fresh_world_def failure_signal_def)

text \<open>
  C4, as the code and the Failure Signal of the spec have it. Let the capture in
  \<^verbatim>\<open>GinkgoRecover\<close> return a location. When \<^verbatim>\<open>recover()\<close> yields a payload, \<^verbatim>\<open>GinkgoRecover\<close>
  hands exactly that payload to the Panic method of the process-wide Failer, with that
  location, and returns; if the Failure Signal held no record, it now holds the Panic
  with the original payload. In a task that defers \<^verbatim>\<open>GinkgoRecover\<close> and calls \<^verbatim>\<open>Fail\<close>, the
  Failer receives the Failure written by \<^verbatim>\<open>Fail\<close> and then the Panic call carrying the
  sentinel; that Panic call changes nothing in the Failure Signal, which keeps the plain
  Failure if it held no record before. A task that ends in \<^verbatim>\<open>panic(nil)\<close> is stopped at
  the boundary with nothing forwarded.
\<close>

theorem GinkgoRecover_forwards_panic:
  fixes callerSkip :: "64 word list"
  defines "skip \<equiv> (case callerSkip of [] \<Rightarrow> 0 | s # rest \<Rightarrow> s)"
  defines "sentinel \<equiv> (\<lambda>l. GinkgoErrorPayload (UncaughtGinkgoPanic l))"
  assumes "rcl 1 = Inr rl"
  shows "GinkgoRecover rcl (Some p) w =
           Next () (w\<lparr>failerCalls := failerCalls w @ [FailerPanic rl p]\<rparr>)
       \<and> (failure_signal (failerCalls w) = None \<longrightarrow>
            failure_signal (failerCalls w @ [FailerPanic rl p]) = Some (FailerPanic rl p))
       \<and> (ncl (skip + 1) = Inr fl \<longrightarrow>
            with_deferred_GinkgoRecover rcl (Fail ncl message callerSkip) w =
              Next () (w\<lparr>failerCalls := failerCalls w @
                         [FailerFail message fl, FailerPanic rl (sentinel fl)]\<rparr>)
          \<and> failure_signal (failerCalls w @ [FailerFail message fl, FailerPanic rl (sentinel fl)])
              = failure_signal (failerCalls w @ [FailerFail message fl])
          \<and> (failure_signal (failerCalls w) = None \<longrightarrow>
               failure_signal (failerCalls w @ [FailerFail message fl, FailerPanic rl (sentinel fl)])
                 = Some (FailerFail message fl)))
       \<and> (body w = Panicked None w1 \<longrightarrow> with_deferred_GinkgoRecover rcl body w = Next () w1)"
proof (intro conjI impI)
  show "GinkgoRecover rcl (Some p) w =
          Next () (w\<lparr>failerCalls := failerCalls w @ [FailerPanic rl p]\<rparr>)"
    using assms(3) by (simp add: GinkgoRecover_def)
next
  assume "failure_signal (failerCalls w) = None"
  then show "failure_signal (failerCalls w @ [FailerPanic rl p]) = Some (FailerPanic rl p)"
    by (simp add: failure_signal_snoc)
next
  assume "ncl (skip + 1) = Inr fl"
  then have f: "Fail ncl message callerSkip w =
      Panicked (Some (sentinel fl)) (w\<lparr>failerCalls := failerCalls w @ [FailerFail message fl]\<rparr>)"
    by (cases callerSkip) (simp_all add: skip_def sentinel_def Fail_def Let_def)
  show "with_deferred_GinkgoRecover rcl (Fail ncl message callerSkip) w =
          Next () (w\<lparr>failerCalls := failerCalls w @
                     [FailerFail message fl, FailerPanic rl (sentinel fl)]\<rparr>)"
    using assms(3) by (simp add: with_deferred_GinkgoRecover_def f GinkgoRecover_def)
next
  obtain r where "failure_signal (failerCalls w @ [FailerFail message fl]) = Some r"
    using failer_receive_set [of "failure_signal (failerCalls w)" "FailerFail message fl"]
    by (auto simp: failure_signal_snoc)
  then show "failure_signal (failerCalls w @ [FailerFail message fl, FailerPanic rl (sentinel fl)])
      = failure_signal (failerCalls w @ [FailerFail message fl])"
    using failure_signal_snoc [of "failerCalls w @ [FailerFail message fl]" "FailerPanic rl (sentinel fl)"]
    by (simp add: failer_receive_Panic_kept)
next
  assume "failure_signal (failerCalls w) = None"
  then have "failure_signal (failerCalls w @ [FailerFail message fl]) = Some (FailerFail message fl)"
    by (simp add: failure_signal_snoc)
  then show "failure_signal (failerCalls w @ [FailerFail message fl, FailerPanic rl (sentinel fl)])
      = Some (FailerFail message fl)"
    using failure_signal_snoc [of "failerCalls w @ [FailerFail message fl]" "FailerPanic rl (sentinel fl)"]
    by simp
next
  assume "body w = Panicked None w1"
  then show "with_deferred_GinkgoRecover rcl body w = Next () w1"
    by (simp add: with_deferred_GinkgoRecover_def GinkgoRecover_def)
qed

text \<open>
  A panic raised by other code in a fresh state becomes the record, of the Panic kind
  and with its payload; for \<^verbatim>\<open>Fail("late", 2)\<close> after that panic the record stays what it
  was.
\<close>

theorem GinkgoRecover_forwards_panic_witness:
  "GinkgoRecover stack_capture (Some (OtherPayload ''index out of range'')) fresh_world =
     Next () (fresh_world\<lparr>failerCalls :=
       [FailerPanic \<lparr>FileName = ''suite_test.go'', LineNumber = 11\<rparr>
          (OtherPayload ''index out of range'')]\<rparr>)
   \<and> failure_signal
       [FailerPanic \<lparr>FileName = ''suite_test.go'', LineNumber = 11\<rparr>
          (OtherPayload ''index out of range'')] =
     Some (FailerPanic \<lparr>FileName = ''suite_test.go'', LineNumber = 11\<rparr>
             (OtherPayload ''index out of range''))
   \<and> with_deferred_GinkgoRecover stack_capture (Fail stack_capture ''late'' [2]) fresh_world =
     Next () (fresh_world\<lparr>failerCalls :=
       [FailerFail ''late'' \<lparr>FileName = ''suite_test.go'', LineNumber = 13\<rparr>,
        FailerPanic \<lparr>FileName = ''suite_test.go'', LineNumber = 11\<rparr>
          (GinkgoErrorPayload
             (UncaughtGinkgoPanic \<lparr>FileName = ''suite_test.go'', LineNumber = 13\<rparr>))]\<rparr>)
   \<and> failure_signal
       [FailerFail ''late'' \<lparr>FileName = ''suite_test.go'', LineNumber = 13\<rparr>,
        FailerPanic \<lparr>FileName = ''suite_test.go'', LineNumber = 11\<rparr>
          (GinkgoErrorPayload
             (UncaughtGinkgoPanic \<lparr>FileName = ''suite_test.go'', LineNumber = 13\<rparr>))] =
     Some (FailerFail ''late'' \<lparr>FileName = ''suite_test.go'', LineNumber = 13\<rparr>)
   \<and> with_deferred_GinkgoRecover stack_capture (\<lambda>w. Panicked None (emit EvTestingTFail w))
       fresh_world =
     Next () (emit EvTestingTFail fresh_world)"
proof -
  have r: "stack_capture 1 = Inr \<lparr>FileName = ''suite_test.go'', LineNumber = 11\<rparr>"
    and f: "stack_capture (2 + 1) = Inr \<lparr>FileName = ''suite_test.go'', LineNumber = 13\<rparr>"
    by (simp_all add: stack_capture_values)
  have n: "failure_signal (failerCalls fresh_world) = None"
    by (simp add: failure_signal_def fresh_world_def)
  from GinkgoRecover_forwards_panic
         [where rcl = stack_capture
          and rl = "\<lparr>FileName = ''suite_test.go'', LineNumber = 11\<rparr>"
          and p = "OtherPayload ''index out of range''" and w = fresh_world
          and ncl = stack_capture and callerSkip = "[2]" and message = "''late''"
          and fl = "\<lparr>FileName = ''suite_test.go'', LineNumber = 13\<rparr>"
          and body = "\<lambda>w. Panicked None (emit EvTestingTFail w)"
          and ?w1.0 = "emit EvTestingTFail fresh_world", OF r]
       f n
  show ?thesis by (simp add: fresh_world_def failure_signal_def)
qed

subsection \<open>Focused and pending variants\<close>

text \<open>
  C9. For every text and argument list, from every state, \<^verbatim>\<open>FDescribe\<close> does what
  \<^verbatim>\<open>Describe\<close> does on the arguments with \<^verbatim>\<open>Focus\<close> appended, \<^verbatim>\<open>PDescribe\<close> and \<^verbatim>\<open>XDescribe\<close>
  what \<^verbatim>\<open>Describe\<close> does with \<^verbatim>\<open>Pending\<close> appended, and \<^verbatim>\<open>FIt\<close>, \<^verbatim>\<open>PIt\<close> and \<^verbatim>\<open>XIt\<close> relate
  to \<^verbatim>\<open>It\<close> in the same way: the same node is built and pushed, with the same errors,
  the same result and the same final state.
\<close>

theorem focused_pending_variants_are_sugar:
  "FDescribe ext text args w = Describe ext text (args @ [Focus]) w
   \<and> PDescribe ext text args w = Describe ext text (args @ [Pending]) w
   \<and> XDescribe ext text args w = Describe ext text (args @ [Pending]) w
   \<and> FIt ext text args w = It ext text (args @ [Focus]) w
   \<and> PIt ext text args w = It ext text (args @ [Pending]) w
   \<and> XIt ext text args w = It ext text (args @ [Pending]) w"
  by (simp add: FDescribe_def PDescribe_def XDescribe_def Describe_def
        FIt_def PIt_def XIt_def It_def Let_def)

subsection \<open>The stages of RunSpecs\<close>

lemmas RunSpecs_defs = RunSpecs_def RunSpecs_prepare_def RunSpecs_configure_def
  RunSpecs_topology_def RunSpecs_writer_def RunSpecs_build_def RunSpecs_run_def
  suite_run_call_def run_deferred_def exitIfErrors_def exitIfErr_def
  shutdown_if_present_def close_if_present_def emit_def RunSpecs_arg_def Let_def
  ToLower_def toLowerByte_def char_of_def bit_Suc_0_iff TrimSpace_def IsSpace_def

text \<open>The loop over the arguments touches the two configurations and nothing else.\<close>

lemma RunSpecs_args_frame:
  "foldl RunSpecs_arg (l, e, w) args = (l', e', w') \<Longrightarrow>
     suiteDidRun w' = suiteDidRun w \<and> outputInterceptor w' = outputInterceptor w
     \<and> client w' = client w \<and> trace w' = trace w \<and> writerMode w' = writerMode w
     \<and> failerCalls w' = failerCalls w \<and> pushedNodes w' = pushedNodes w"
  by (induction args arbitrary: l e w) (auto simp: RunSpecs_arg_def split: go_value.splits)

lemma RunSpecs_arg_errors:
  "fst (snd (RunSpecs_arg (l, e, w) a)) =
     e @ (if is_configuration a then [] else [UnknownTypePassedToRunSpecs a])"
  by (cases a) (simp_all add: RunSpecs_arg_def is_configuration_def)

text \<open>It collects one error for each argument outside the three kinds, in order.\<close>

lemma RunSpecs_args_errors:
  "fst (snd (foldl RunSpecs_arg (l, e, w) args)) =
     e @ map UnknownTypePassedToRunSpecs (filter (\<lambda>a. \<not> is_configuration a) args)"
proof (induction args arbitrary: l e w)
  case Nil
  show ?case by simp
next
  case (Cons a args)
  obtain l1 e1 w1 where s: "RunSpecs_arg (l, e, w) a = (l1, e1, w1)"
    by (cases "RunSpecs_arg (l, e, w) a") auto
  with RunSpecs_arg_errors [of l e w a]
  have "e1 = e @ (if is_configuration a then [] else [UnknownTypePassedToRunSpecs a])"
    by simp
  with s Cons.IH [of l1 e1 w1] show ?case by simp
qed

lemma RunSpecs_configure_rerun:
  "suiteDidRun w \<Longrightarrow>
   RunSpecs_configure ext args w =
     Exit 1 (emit (EvStderrPrintln RerunningSuite) (close_if_present (shutdown_if_present w)))"
  by (simp add: RunSpecs_configure_def)

lemma RunSpecs_configure_Next:
  assumes "RunSpecs_configure ext args w = Next l w'"
  shows "suiteDidRun w' \<and> \<not> suiteDidRun w \<and> trace w' = trace w
         \<and> outputInterceptor w' = outputInterceptor w \<and> client w' = client w
         \<and> VetConfig ext (suiteConfig w') (reporterConfig w') = []"
proof -
  obtain l1 e1 w1 where
    f: "foldl RunSpecs_arg ([], [], w\<lparr>suiteDidRun := True\<rparr>) args = (l1, e1, w1)"
    by (cases "foldl RunSpecs_arg ([], [], w\<lparr>suiteDidRun := True\<rparr>) args") auto
  from assms have n: "\<not> suiteDidRun w"
    by (auto simp: RunSpecs_configure_def)
  from assms n f
  have "e1 = []" and "w' = w1" and "VetConfig ext (suiteConfig w1) (reporterConfig w1) = []"
    by (auto simp: RunSpecs_configure_def Let_def and_then_eq_Next exitIfErrors_eq_Next
             split: if_splits)
  with RunSpecs_args_frame [OF f] n show ?thesis by simp
qed

lemma RunSpecs_topology_Next:
  assumes "RunSpecs_topology ext w = Next rd w'"
  shows "suiteDidRun w' = suiteDidRun w \<and> outputInterceptor w' \<noteq> None
         \<and> suiteConfig w' = suiteConfig w \<and> reporterConfig w' = reporterConfig w
         \<and> snd rd = client w'"
  using assms
  by (auto simp: RunSpecs_topology_def Let_def emit_def and_then_eq_Next exitIfErr_eq_Next
           split: if_splits option.splits)

lemma RunSpecs_topology_solo:
  "ParallelTotal (suiteConfig w) = 1 \<Longrightarrow>
   RunSpecs_topology ext w =
     Next (DefaultReporter (reporterConfig w), None)
          (w\<lparr>outputInterceptor := Some NoopOutputInterceptor, client := None\<rparr>)"
  by (simp add: RunSpecs_topology_def)

lemma RunSpecs_topology_connected:
  "ParallelTotal (suiteConfig w) \<noteq> 1 \<Longrightarrow>
   Connect ext (NewClient (ParallelHost (suiteConfig w))) \<Longrightarrow>
   RunSpecs_topology ext w =
     Next (NoopReporter, Some (NewClient (ParallelHost (suiteConfig w))))
          (w\<lparr>outputInterceptor :=
               Some (if ToLower (OutputInterceptorMode (suiteConfig w)) = ''swap''
                     then OSGlobalReassigningOutputInterceptor
                     else if ToLower (OutputInterceptorMode (suiteConfig w)) = ''none''
                     then NoopOutputInterceptor else GenericOutputInterceptor),
              client := Some (NewClient (ParallelHost (suiteConfig w))),
              trace := trace w @ [EvClientConnect (NewClient (ParallelHost (suiteConfig w)))]\<rparr>)"
  by (simp add: RunSpecs_topology_def Let_def emit_def)

lemma RunSpecs_topology_unreachable:
  "ParallelTotal (suiteConfig w) \<noteq> 1 \<Longrightarrow>
   \<not> Connect ext (NewClient (ParallelHost (suiteConfig w))) \<Longrightarrow>
   RunSpecs_topology ext w =
     Exit 1 (w\<lparr>outputInterceptor :=
               Some (if ToLower (OutputInterceptorMode (suiteConfig w)) = ''swap''
                     then OSGlobalReassigningOutputInterceptor
                     else if ToLower (OutputInterceptorMode (suiteConfig w)) = ''none''
                     then NoopOutputInterceptor else GenericOutputInterceptor),
              client := None,
              trace := trace w @
                [EvClientConnect (NewClient (ParallelHost (suiteConfig w))),
                 EvInterceptorShutdown
                   (if ToLower (OutputInterceptorMode (suiteConfig w)) = ''swap''
                    then OSGlobalReassigningOutputInterceptor
                    else if ToLower (OutputInterceptorMode (suiteConfig w)) = ''none''
                    then NoopOutputInterceptor else GenericOutputInterceptor),
                 EvStderrPrintln (UnreachableParallelHost (ParallelHost (suiteConfig w)))]\<rparr>)"
  by (simp add: RunSpecs_topology_def Let_def emit_def shutdown_if_present_def
        close_if_present_def)

lemma RunSpecs_build_frame:
  assumes "RunSpecs_build ext w = Next p w'"
  shows "suiteDidRun w' = suiteDidRun w \<and> suiteConfig w' = suiteConfig w
         \<and> reporterConfig w' = reporterConfig w \<and> writerMode w' = writerMode w
         \<and> outputInterceptor w' = outputInterceptor w \<and> client w' = client w"
  using assms
  by (auto simp: RunSpecs_build_def Let_def emit_def and_then_eq_Next exitIfErr_eq_Next
           split: if_splits)

lemma RunSpecs_run_frame:
  assumes "RunSpecs_run ext d l r df p w = Next b w'"
  shows "suiteDidRun w' = suiteDidRun w \<and> suiteConfig w' = suiteConfig w
         \<and> reporterConfig w' = reporterConfig w \<and> writerMode w' = writerMode w
         \<and> outputInterceptor w' = outputInterceptor w \<and> client w' = client w"
  using assms
  by (auto simp: RunSpecs_run_def Let_def emit_def run_deferred_def
           split: if_splits option.splits)

text \<open>A call of \<^verbatim>\<open>RunSpecs\<close> that returns has gone through every stage.\<close>

lemma RunSpecs_Next_stages:
  assumes "RunSpecs ext d args w = Next passed w'"
  obtains l rd p w1 w2 w3 where
    "RunSpecs_configure ext args w = Next l w1" and
    "RunSpecs_topology ext w1 = Next rd w2" and
    "RunSpecs_build ext (RunSpecs_writer w2) = Next p w3" and
    "RunSpecs_run ext d l (fst rd) (snd rd) p w3 = Next passed w'"
  using assms by (auto simp: RunSpecs_def RunSpecs_prepare_def and_then_eq_Next)

lemma RunSpecs_Next_suiteDidRun:
  assumes "RunSpecs ext d args w = Next passed w'"
  shows "suiteDidRun w'"
proof -
  from assms obtain l rd p w1 w2 w3 where
    c: "RunSpecs_configure ext args w = Next l w1" and
    t: "RunSpecs_topology ext w1 = Next rd w2" and
    b: "RunSpecs_build ext (RunSpecs_writer w2) = Next p w3" and
    r: "RunSpecs_run ext d l (fst rd) (snd rd) p w3 = Next passed w'"
    by (rule RunSpecs_Next_stages)
  from RunSpecs_configure_Next [OF c] have "suiteDidRun w1" by simp
  with RunSpecs_topology_Next [OF t] have "suiteDidRun (RunSpecs_writer w2)"
    by (simp add: RunSpecs_writer_def)
  with RunSpecs_build_frame [OF b] RunSpecs_run_frame [OF r] show ?thesis by simp
qed

lemma RunSpecs_prepare_interceptor:
  assumes "RunSpecs_prepare ext args w = Next ctx w1"
  shows "outputInterceptor w1 \<noteq> None"
proof -
  from assms obtain l rd p wa wb where
    t: "RunSpecs_topology ext wa = Next rd wb" and
    b: "RunSpecs_build ext (RunSpecs_writer wb) = Next p w1"
    by (auto simp: RunSpecs_prepare_def and_then_eq_Next)
  from RunSpecs_topology_Next [OF t] RunSpecs_build_frame [OF b] show ?thesis
    by (simp add: RunSpecs_writer_def split: if_splits)
qed

text \<open>A string is trimmed to nothing exactly when it is empty or all white space.\<close>

lemma all_dropWhile:
  "(\<forall>x\<in>set (dropWhile P xs). P x) \<longleftrightarrow> (\<forall>x\<in>set xs. P x)"
  by (induction xs) auto

lemma TrimSpace_eq_Nil: "TrimSpace s = [] \<longleftrightarrow> list_all IsSpace s"
  by (simp add: TrimSpace_def dropWhile_eq_Nil_conv all_dropWhile list_all_iff)

subsection \<open>Running twice\<close>

text \<open>
  C1. After a call of \<^verbatim>\<open>RunSpecs\<close> that has returned, every further call in the same
  process, whatever its arguments and whatever the collaborators would answer, ends the
  process with status 1: the interceptor and the client that are still in the package
  variables are released, the re-run error is written to the error stream, and nothing
  else happens. In particular the second call adds no tree build and no run of the suite
  to the trace.
\<close>

theorem RunSpecs_second_call_is_fatal:
  assumes "RunSpecs ext1 d1 args1 w0 = Next passed w1"
  shows "RunSpecs ext2 d2 args2 w1 =
           Exit 1 (emit (EvStderrPrintln RerunningSuite)
                        (close_if_present (shutdown_if_present w1)))
         \<and> filter builds_or_runs (new_events w1 (world_of (RunSpecs ext2 d2 args2 w1))) = []"
proof -
  from RunSpecs_Next_suiteDidRun [OF assms] have d: "suiteDidRun w1" .
  then have e: "RunSpecs ext2 d2 args2 w1 =
      Exit 1 (emit (EvStderrPrintln RerunningSuite) (close_if_present (shutdown_if_present w1)))"
    by (simp add: RunSpecs_def RunSpecs_prepare_def RunSpecs_configure_rerun)
  have "filter builds_or_runs
          (new_events w1 (emit (EvStderrPrintln RerunningSuite)
                               (close_if_present (shutdown_if_present w1)))) = []"
    by (simp add: new_events_def emit_def close_if_present_def shutdown_if_present_def
          builds_or_runs_def split: option.splits)
  with e show ?thesis by (simp add: world_of_def)
qed

text \<open>
  The fresh process runs a solo suite, which returns; the second call exits with
  status 1 after shutting the interceptor down once more and printing the error.
\<close>

theorem RunSpecs_second_call_is_fatal_witness:
  "RunSpecs quiet_externals ''suite'' [] fresh_world = Next True after_solo_run
   \<and> RunSpecs quiet_externals ''again'' [] after_solo_run =
       Exit 1 (after_solo_run\<lparr>trace := trace after_solo_run @
                 [EvInterceptorShutdown NoopOutputInterceptor, EvStderrPrintln RerunningSuite]\<rparr>)"
proof -
  have first: "RunSpecs quiet_externals ''suite'' [] fresh_world = Next True after_solo_run"
    by (simp add: RunSpecs_defs quiet_externals_def fresh_world_def solo_config_def
          after_solo_run_def)
  from RunSpecs_second_call_is_fatal [OF first, of quiet_externals "''again''" "[]"] first
  show ?thesis
    by (simp add: emit_def close_if_present_def shutdown_if_present_def after_solo_run_def
          fresh_world_def)
qed

subsection \<open>Configuration errors\<close>

text \<open>
  The flag set rejects the configuration and one argument is of an unknown type: the
  call prints the error for the argument alone and exits. The error of the flag
  validation of the same call is printed in neither of the two ways the function prints
  errors.
\<close>

theorem RunSpecs_unknown_argument_hides_flag_errors:
  "VetConfig strict_flag_externals (suiteConfig fresh_world) (reporterConfig fresh_world) =
     [ExternalError ''invalid flag'']
   \<and> RunSpecs strict_flag_externals ''suite'' [VOther ''42''] fresh_world =
       Exit 1 (fresh_world\<lparr>suiteDidRun := True,
                 trace := [EvStderrPrintln (UnknownTypePassedToRunSpecs (VOther ''42''))]\<rparr>)
   \<and> EvStderrPrintf (ExternalError ''invalid flag'')
       \<notin> set (trace (world_of (RunSpecs strict_flag_externals ''suite'' [VOther ''42'']
                                   fresh_world)))
   \<and> EvStderrPrintln (ExternalError ''invalid flag'')
       \<notin> set (trace (world_of (RunSpecs strict_flag_externals ''suite'' [VOther ''42'']
                                   fresh_world)))"
  by (simp add: RunSpecs_defs strict_flag_externals_def quiet_externals_def fresh_world_def
        solo_config_def world_of_def)

text \<open>
  C2, as the code has it. In a first call of \<^verbatim>\<open>RunSpecs\<close>, every argument that is not a
  SuiteConfig, a ReporterConfig or a Labels value yields one error. If there is at least
  one such argument, the call releases what the package variables hold, prints all of
  these errors, in the order of the arguments, and exits with status 1; the flag
  validation is not consulted. If there is none and the flag validation of the merged
  configuration finds errors, the call prints the heading and all of those errors, in
  order, and exits with status 1.
\<close>

theorem RunSpecs_configuration_errors:
  fixes w :: "'n world" and args :: "go_value list" and ext :: "'n externals"
  assumes "\<not> suiteDidRun w"
  defines "merged \<equiv> snd (snd (foldl RunSpecs_arg ([], [], w\<lparr>suiteDidRun := True\<rparr>) args))"
  defines "unknown \<equiv>
             map UnknownTypePassedToRunSpecs (filter (\<lambda>a. \<not> is_configuration a) args)"
  defines "flagErrors \<equiv> VetConfig ext (suiteConfig merged) (reporterConfig merged)"
  defines "closed \<equiv> close_if_present (shutdown_if_present merged)"
  shows "(unknown \<noteq> [] \<longrightarrow>
            RunSpecs ext d args w =
              Exit 1 (closed\<lparr>trace := trace closed @ map EvStderrPrintln unknown\<rparr>))
       \<and> (unknown = [] \<and> flagErrors \<noteq> [] \<longrightarrow>
            RunSpecs ext d args w =
              Exit 1 (merged\<lparr>trace := trace merged @
                        EvStderrConfigurationIssues # map EvStderrPrintf flagErrors\<rparr>))"
proof -
  obtain l e w1 where
    f: "foldl RunSpecs_arg ([], [], w\<lparr>suiteDidRun := True\<rparr>) args = (l, e, w1)"
    by (cases "foldl RunSpecs_arg ([], [], w\<lparr>suiteDidRun := True\<rparr>) args") auto
  then have m: "merged = w1" by (simp add: merged_def)
  from RunSpecs_args_errors [of "[]" "[]" "w\<lparr>suiteDidRun := True\<rparr>" args] f
  have u: "e = unknown" by (simp add: unknown_def)
  from assms(1) f have c: "RunSpecs_configure ext args w =
      and_then (exitIfErrors e w1)
        (\<lambda>_ w3. let configErrors = VetConfig ext (suiteConfig w3) (reporterConfig w3) in
                   if length configErrors > 0
                   then Exit 1 (foldl (\<lambda>w e. emit (EvStderrPrintf e) w)
                                      (emit EvStderrConfigurationIssues w3) configErrors)
                   else Next l w3)"
    by (simp add: RunSpecs_configure_def)
  have a: "RunSpecs ext d args w =
      Exit 1 (closed\<lparr>trace := trace closed @ map EvStderrPrintln unknown\<rparr>)"
    if "unknown \<noteq> []"
    using that c u m
    by (simp add: RunSpecs_def RunSpecs_prepare_def exitIfErrors_nonempty closed_def)
  have b: "RunSpecs ext d args w =
      Exit 1 (merged\<lparr>trace := trace merged @
                EvStderrConfigurationIssues # map EvStderrPrintf flagErrors\<rparr>)"
    if "unknown = []" and "flagErrors \<noteq> []"
    using that c u m
    by (simp add: RunSpecs_def RunSpecs_prepare_def flagErrors_def foldl_emit)
       (simp add: emit_def)
  from a b show ?thesis by blast
qed

text \<open>
  Two unknown arguments among three are both reported; with known arguments only, the
  rejected configuration is reported under its heading.
\<close>

theorem RunSpecs_configuration_errors_witness:
  "RunSpecs strict_flag_externals ''suite'' [VOther ''42'', VLabels [''slow''], Pending]
     fresh_world =
     Exit 1 (fresh_world\<lparr>suiteDidRun := True,
               trace := [EvStderrPrintln (UnknownTypePassedToRunSpecs (VOther ''42'')),
                         EvStderrPrintln (UnknownTypePassedToRunSpecs Pending)]\<rparr>)
   \<and> RunSpecs strict_flag_externals ''suite'' [VLabels [''slow'']] fresh_world =
     Exit 1 (fresh_world\<lparr>suiteDidRun := True,
               trace := [EvStderrConfigurationIssues,
                         EvStderrPrintf (ExternalError ''invalid flag'')]\<rparr>)"
proof -
  have n: "\<not> suiteDidRun fresh_world" by (simp add: fresh_world_def)
  from RunSpecs_configuration_errors
         [OF n, where args = "[VOther ''42'', VLabels [''slow''], Pending]"
          and ext = strict_flag_externals and d = "''suite''"]
       RunSpecs_configuration_errors
         [OF n, where args = "[VLabels [''slow'']]"
          and ext = strict_flag_externals and d = "''suite''"]
  show ?thesis
    by (simp add: RunSpecs_arg_def is_configuration_def close_if_present_def
          shutdown_if_present_def fresh_world_def strict_flag_externals_def
          quiet_externals_def)
qed

subsection \<open>Solo or parallel\<close>

text \<open>
  C5. At the topology branch of \<^verbatim>\<open>RunSpecs\<close>: with one parallel process in total, the
  console reporter and the no-op interceptor are chosen, the client is nil and no
  connection is attempted. With more than one, the reporter is the no-op one, the
  interceptor is chosen by the lower-cased mode (swap, none, anything else), and a client
  for the configured host is connected; when the connection fails, \<^verbatim>\<open>RunSpecs\<close> shuts the
  interceptor down, prints the unreachable-host error and exits with status 1, having
  added neither a tree build nor a run to the trace it started with.
\<close>

theorem RunSpecs_topology_branch:
  fixes w :: "'n world" and ext :: "'n externals"
  defines "host \<equiv> ParallelHost (suiteConfig w)"
  defines "mode \<equiv> ToLower (OutputInterceptorMode (suiteConfig w))"
  defines "interceptor \<equiv>
             (if mode = ''swap'' then OSGlobalReassigningOutputInterceptor
              else if mode = ''none'' then NoopOutputInterceptor
              else GenericOutputInterceptor)"
  shows "(ParallelTotal (suiteConfig w) = 1 \<longrightarrow>
            RunSpecs_topology ext w =
              Next (DefaultReporter (reporterConfig w), None)
                   (w\<lparr>outputInterceptor := Some NoopOutputInterceptor, client := None\<rparr>))
       \<and> (ParallelTotal (suiteConfig w) > 1 \<and> Connect ext (NewClient host) \<longrightarrow>
            RunSpecs_topology ext w =
              Next (NoopReporter, Some (NewClient host))
                   (w\<lparr>outputInterceptor := Some interceptor, client := Some (NewClient host),
                      trace := trace w @ [EvClientConnect (NewClient host)]\<rparr>))
       \<and> (ParallelTotal (suiteConfig w) > 1 \<and> \<not> Connect ext (NewClient host)
            \<and> RunSpecs_configure ext args w0 = Next suiteLabels w \<longrightarrow>
            RunSpecs ext description args w0 =
              Exit 1 (w\<lparr>outputInterceptor := Some interceptor, client := None,
                        trace := trace w0 @
                          [EvClientConnect (NewClient host), EvInterceptorShutdown interceptor,
                           EvStderrPrintln (UnreachableParallelHost host)]\<rparr>))"
proof (intro conjI impI)
  assume "ParallelTotal (suiteConfig w) = 1"
  then show "RunSpecs_topology ext w =
      Next (DefaultReporter (reporterConfig w), None)
           (w\<lparr>outputInterceptor := Some NoopOutputInterceptor, client := None\<rparr>)"
    by (rule RunSpecs_topology_solo)
next
  assume "ParallelTotal (suiteConfig w) > 1 \<and> Connect ext (NewClient host)"
  then show "RunSpecs_topology ext w =
      Next (NoopReporter, Some (NewClient host))
           (w\<lparr>outputInterceptor := Some interceptor, client := Some (NewClient host),
              trace := trace w @ [EvClientConnect (NewClient host)]\<rparr>)"
    by (simp add: RunSpecs_topology_connected host_def mode_def interceptor_def)
next
  assume a: "ParallelTotal (suiteConfig w) > 1 \<and> \<not> Connect ext (NewClient host)
             \<and> RunSpecs_configure ext args w0 = Next suiteLabels w"
  then have "trace w = trace w0"
    using RunSpecs_configure_Next [of ext args w0 suiteLabels w] by simp
  with a show "RunSpecs ext description args w0 =
      Exit 1 (w\<lparr>outputInterceptor := Some interceptor, client := None,
                trace := trace w0 @
                  [EvClientConnect (NewClient host), EvInterceptorShutdown interceptor,
                   EvStderrPrintln (UnreachableParallelHost host)]\<rparr>)"
    by (simp add: RunSpecs_def RunSpecs_prepare_def RunSpecs_topology_unreachable
          host_def mode_def interceptor_def)
qed

text \<open>
  The fresh process alone; the same with two processes, mode \<^verbatim>\<open>SWAP\<close> and a host that
  answers; and a whole call with two processes and a host that does not answer.
\<close>

theorem RunSpecs_topology_branch_witness:
  "RunSpecs_topology quiet_externals fresh_world =
     Next (DefaultReporter \<lparr>NoColor = False, Verbose = False\<rparr>, None)
          (fresh_world\<lparr>outputInterceptor := Some NoopOutputInterceptor\<rparr>)
   \<and> RunSpecs_topology quiet_externals (fresh_world\<lparr>suiteConfig := parallel_config\<rparr>) =
     Next (NoopReporter, Some (NewClient ''127.0.0.1:4000''))
          (fresh_world\<lparr>suiteConfig := parallel_config,
             outputInterceptor := Some OSGlobalReassigningOutputInterceptor,
             client := Some (NewClient ''127.0.0.1:4000''),
             trace := [EvClientConnect (NewClient ''127.0.0.1:4000'')]\<rparr>)
   \<and> RunSpecs unreachable_externals ''suite'' [VSuiteConfig parallel_config] fresh_world =
     Exit 1 (fresh_world\<lparr>suiteDidRun := True, suiteConfig := parallel_config,
               outputInterceptor := Some OSGlobalReassigningOutputInterceptor,
               trace := [EvClientConnect (NewClient ''127.0.0.1:4000''),
                         EvInterceptorShutdown OSGlobalReassigningOutputInterceptor,
                         EvStderrPrintln (UnreachableParallelHost ''127.0.0.1:4000'')]\<rparr>)"
proof -
  have c: "RunSpecs_configure unreachable_externals [VSuiteConfig parallel_config] fresh_world =
      Next [] (fresh_world\<lparr>suiteDidRun := True, suiteConfig := parallel_config\<rparr>)"
    by (simp add: RunSpecs_configure_def RunSpecs_arg_def unreachable_externals_def
          quiet_externals_def fresh_world_def)
  have l: "ToLower ''SWAP'' = ''swap''"
    by (simp add: ToLower_def toLowerByte_def char_of_def bit_Suc_0_iff)
  from RunSpecs_topology_branch [where w = fresh_world and ext = quiet_externals]
       RunSpecs_topology_branch
         [where w = "fresh_world\<lparr>suiteConfig := parallel_config\<rparr>" and ext = quiet_externals]
       RunSpecs_topology_branch
         [where w = "fresh_world\<lparr>suiteDidRun := True, suiteConfig := parallel_config\<rparr>"
          and ext = unreachable_externals and args = "[VSuiteConfig parallel_config]"
          and ?w0.0 = fresh_world and suiteLabels = "[]" and description = "''suite''"]
       c l
  show ?thesis
    by (simp add: fresh_world_def solo_config_def parallel_config_def quiet_externals_def
          unreachable_externals_def)
qed

subsection \<open>The mode of the writer\<close>

text \<open>
  C6. The writer step of \<^verbatim>\<open>RunSpecs\<close> leaves the writer in stream-and-buffer mode exactly
  when the reporter configuration is verbose and the total number of parallel processes
  is 1, and in buffer-only mode exactly when that is not so. No later step changes the
  mode or the configurations, so a call that returns leaves the writer in the mode that
  its final configuration asks for.
\<close>

theorem RunSpecs_writer_mode:
  "(writerMode (RunSpecs_writer w) = WriterModeStreamAndBuffer
      \<longleftrightarrow> Verbose (reporterConfig w) \<and> ParallelTotal (suiteConfig w) = 1)
   \<and> (writerMode (RunSpecs_writer w) = WriterModeBufferOnly
      \<longleftrightarrow> \<not> (Verbose (reporterConfig w) \<and> ParallelTotal (suiteConfig w) = 1))
   \<and> (RunSpecs ext d args w0 = Next passed w' \<longrightarrow>
        writerMode w' =
          (if Verbose (reporterConfig w') \<and> ParallelTotal (suiteConfig w') = 1
           then WriterModeStreamAndBuffer else WriterModeBufferOnly))"
proof (intro conjI impI)
  show "writerMode (RunSpecs_writer w) = WriterModeStreamAndBuffer
      \<longleftrightarrow> Verbose (reporterConfig w) \<and> ParallelTotal (suiteConfig w) = 1"
    by (simp add: RunSpecs_writer_def)
  show "writerMode (RunSpecs_writer w) = WriterModeBufferOnly
      \<longleftrightarrow> \<not> (Verbose (reporterConfig w) \<and> ParallelTotal (suiteConfig w) = 1)"
    by (simp add: RunSpecs_writer_def)
next
  assume "RunSpecs ext d args w0 = Next passed w'"
  then obtain l rd p w1 w2 w3 where
    b: "RunSpecs_build ext (RunSpecs_writer w2) = Next p w3" and
    r: "RunSpecs_run ext d l (fst rd) (snd rd) p w3 = Next passed w'"
    by (rule RunSpecs_Next_stages)
  from RunSpecs_build_frame [OF b] RunSpecs_run_frame [OF r]
  show "writerMode w' =
          (if Verbose (reporterConfig w') \<and> ParallelTotal (suiteConfig w') = 1
           then WriterModeStreamAndBuffer else WriterModeBufferOnly)"
    by (simp add: RunSpecs_writer_def)
qed

text \<open>
  Verbose and solo streams; quiet and solo buffers; verbose with two processes buffers.
\<close>

theorem RunSpecs_writer_mode_witness:
  "(\<exists>w'. RunSpecs quiet_externals ''suite'' [VReporterConfig verbose_config] fresh_world
            = Next True w'
        \<and> writerMode w' = WriterModeStreamAndBuffer)
   \<and> (\<exists>w'. RunSpecs quiet_externals ''suite'' [] fresh_world = Next True w'
        \<and> writerMode w' = WriterModeBufferOnly)
   \<and> (\<exists>w'. RunSpecs quiet_externals ''suite''
              [VReporterConfig verbose_config, VSuiteConfig parallel_config] fresh_world
            = Next True w'
        \<and> writerMode w' = WriterModeBufferOnly)"
proof -
  let ?w1 = "world_of (RunSpecs quiet_externals ''suite'' [VReporterConfig verbose_config]
                         fresh_world)"
  let ?w2 = "world_of (RunSpecs quiet_externals ''suite'' [] fresh_world)"
  let ?w3 = "world_of (RunSpecs quiet_externals ''suite''
                 [VReporterConfig verbose_config, VSuiteConfig parallel_config] fresh_world)"
  have r1: "RunSpecs quiet_externals ''suite'' [VReporterConfig verbose_config] fresh_world
              = Next True ?w1"
    and c1: "Verbose (reporterConfig ?w1) \<and> ParallelTotal (suiteConfig ?w1) = 1"
    by (simp_all add: RunSpecs_defs quiet_externals_def fresh_world_def solo_config_def
          verbose_config_def world_of_def)
  have r2: "RunSpecs quiet_externals ''suite'' [] fresh_world = Next True ?w2"
    and c2: "\<not> Verbose (reporterConfig ?w2)"
    by (simp_all add: RunSpecs_defs quiet_externals_def fresh_world_def solo_config_def
          world_of_def)
  have r3: "RunSpecs quiet_externals ''suite''
              [VReporterConfig verbose_config, VSuiteConfig parallel_config] fresh_world
              = Next True ?w3"
    and c3: "ParallelTotal (suiteConfig ?w3) \<noteq> 1"
    by (simp_all add: RunSpecs_defs quiet_externals_def fresh_world_def solo_config_def
          parallel_config_def verbose_config_def world_of_def)
  from RunSpecs_writer_mode [of fresh_world quiet_externals "''suite''"
         "[VReporterConfig verbose_config]" fresh_world True ?w1] r1 c1
  have "writerMode ?w1 = WriterModeStreamAndBuffer" by simp
  moreover
  from RunSpecs_writer_mode [of fresh_world quiet_externals "''suite''" "[]" fresh_world
         True ?w2] r2 c2
  have "writerMode ?w2 = WriterModeBufferOnly" by simp
  moreover
  from RunSpecs_writer_mode [of fresh_world quiet_externals "''suite''"
         "[VReporterConfig verbose_config, VSuiteConfig parallel_config]" fresh_world
         True ?w3] r3 c3
  have "writerMode ?w3 = WriterModeBufferOnly" by simp
  ultimately show ?thesis using r1 r2 r3 by blast
qed

subsection \<open>Passed, but focused\<close>

text \<open>
  C8. Whenever \<^verbatim>\<open>RunSpecs\<close> gets as far as running the suite and the run reports that it
  has passed and that focused specs were present: if the value of
  \<^verbatim>\<open>GINKGO_EDITOR_INTEGRATION\<close> is empty or consists of white space only, the process
  exits with \<^verbatim>\<open>GINKGO_FOCUS_EXIT_CODE\<close>, the last thing done being the line printed on
  standard output; otherwise \<^verbatim>\<open>RunSpecs\<close> returns true.
\<close>

theorem RunSpecs_passed_but_focused:
  assumes "RunSpecs_prepare ext args w = Next (suiteLabels, reporter, deferred, suitePath) w1"
      and "Run ext (suite_run_call description suiteLabels reporter suitePath w1) = (True, True)"
  shows "(list_all IsSpace (Getenv ext ''GINKGO_EDITOR_INTEGRATION'') \<longrightarrow>
            (\<exists>w'. RunSpecs ext description args w = Exit (GINKGO_FOCUS_EXIT_CODE ext) w'
                  \<and> last (trace w') = EvStdoutPassFocused))
       \<and> (\<not> list_all IsSpace (Getenv ext ''GINKGO_EDITOR_INTEGRATION'') \<longrightarrow>
            (\<exists>w'. RunSpecs ext description args w = Next True w'))"
proof -
  from RunSpecs_prepare_interceptor [OF assms(1)]
  obtain i where i: "outputInterceptor w1 = Some i" by auto
  have r: "RunSpecs ext description args w =
             RunSpecs_run ext description suiteLabels reporter deferred suitePath w1"
    using assms(1) by (simp add: RunSpecs_def)
  show ?thesis
    using assms(2) i
    by (simp add: r RunSpecs_run_def Let_def emit_def TrimSpace_eq_Nil)
qed

text \<open>
  A passed, focused solo run: with a marker of a space, a tab and a no-break space the
  process exits with 197; with the marker \<^verbatim>\<open> 1\<close> the call returns true.
\<close>

theorem RunSpecs_passed_but_focused_witness:
  "(\<exists>w'. RunSpecs blank_externals ''suite'' [] fresh_world = Exit 197 w'
         \<and> last (trace w') = EvStdoutPassFocused)
   \<and> (\<exists>w'. RunSpecs marked_externals ''suite'' [] fresh_world = Next True w')"
proof -
  let ?w1 = "fresh_world\<lparr>suiteDidRun := True, outputInterceptor := Some NoopOutputInterceptor,
       writerMode := WriterModeBufferOnly, trace := [EvSuiteBuildTree]\<rparr>"
  let ?r = "DefaultReporter \<lparr>NoColor = False, Verbose = False\<rparr>"
  have p1: "RunSpecs_prepare blank_externals [] fresh_world = Next ([], ?r, None, ''/suite'') ?w1"
    and p2: "RunSpecs_prepare marked_externals [] fresh_world = Next ([], ?r, None, ''/suite'') ?w1"
    by (simp_all add: RunSpecs_defs blank_externals_def marked_externals_def
          focused_externals_def quiet_externals_def fresh_world_def solo_config_def)
  have f1: "Run blank_externals (suite_run_call ''suite'' [] ?r ''/suite'' ?w1) = (True, True)"
    and f2: "Run marked_externals (suite_run_call ''suite'' [] ?r ''/suite'' ?w1) = (True, True)"
    by (simp_all add: blank_externals_def marked_externals_def focused_externals_def
          quiet_externals_def)
  from RunSpecs_passed_but_focused [OF p1 f1] RunSpecs_passed_but_focused [OF p2 f2]
  show ?thesis
    by (simp add: blank_externals_def marked_externals_def focused_externals_def
          quiet_externals_def IsSpace_def)
qed

subsection \<open>Releasing the interceptor and the client\<close>

lemma emit_fields [simp]:
  "suiteDidRun (emit e w) = suiteDidRun w" "suiteConfig (emit e w) = suiteConfig w"
  "reporterConfig (emit e w) = reporterConfig w"
  "outputInterceptor (emit e w) = outputInterceptor w" "client (emit e w) = client w"
  "writerMode (emit e w) = writerMode w" "trace (emit e w) = trace w @ [e]"
  by (simp_all add: emit_def)

lemma released_exitIfErr:
  "exitIfErr err w = Exit c w' \<Longrightarrow> released w'"
  by (cases err)
     (auto simp: released_def emit_def shutdown_if_present_def close_if_present_def
           split: option.splits)

lemma released_exitIfErrors:
  assumes "exitIfErrors errs w = Exit c w'"
  shows "released w'"
proof -
  from assms have "errs \<noteq> []" by auto
  from assms exitIfErrors_nonempty [OF this, of w] show ?thesis
    by (auto simp: released_def emit_def shutdown_if_present_def close_if_present_def
             split: option.splits)
qed

text \<open>
  The second gate on configuration errors exits without releasing anything; in a
  process that has not run the suite yet there is nothing to release at that point.
\<close>

lemma RunSpecs_configure_Exit:
  assumes "RunSpecs_configure ext args w = Exit c w'"
    and "suiteDidRun w \<or> (outputInterceptor w = None \<and> client w = None)"
  shows "released w'"
proof (cases "suiteDidRun w")
  case True
  with assms(1) show ?thesis
    by (auto simp: RunSpecs_configure_rerun released_def emit_def shutdown_if_present_def
             close_if_present_def split: option.splits)
next
  case False
  obtain l e w1 where
    f: "foldl RunSpecs_arg ([], [], w\<lparr>suiteDidRun := True\<rparr>) args = (l, e, w1)"
    by (cases "foldl RunSpecs_arg ([], [], w\<lparr>suiteDidRun := True\<rparr>) args") auto
  from RunSpecs_args_frame [OF f] assms(2) False
  have n: "outputInterceptor w1 = None" "client w1 = None" by simp_all
  show ?thesis
  proof (cases e)
    case Nil
    with assms(1) False f n show ?thesis
      by (auto simp: RunSpecs_configure_def Let_def foldl_emit released_def
               split: if_splits)
  next
    case (Cons a es)
    with assms(1) False f have "exitIfErrors e w1 = Exit c w'"
      by (auto simp: RunSpecs_configure_def exitIfErrors_def)
    then show ?thesis by (rule released_exitIfErrors)
  qed
qed

lemma RunSpecs_topology_Exit:
  "RunSpecs_topology ext w = Exit c w' \<Longrightarrow> released w'"
  by (auto simp: RunSpecs_topology_def Let_def emit_def released_def shutdown_if_present_def
                 close_if_present_def and_then_def split: if_splits option.splits)

lemma RunSpecs_build_Exit:
  "RunSpecs_build ext w = Exit c w' \<Longrightarrow> released w'"
  by (auto simp: RunSpecs_build_def Let_def and_then_def
           split: if_splits step.splits dest: released_exitIfErr)

lemma RunSpecs_configure_not_Panicked:
  "RunSpecs_configure ext args w \<noteq> Panicked p w'"
  by (auto simp: RunSpecs_configure_def Let_def and_then_def exitIfErr_def exitIfErrors_def
           split: if_splits step.splits option.splits prod.splits)

lemma RunSpecs_topology_not_Panicked:
  "RunSpecs_topology ext w \<noteq> Panicked p w'"
  by (auto simp: RunSpecs_topology_def Let_def emit_def split: if_splits option.splits)

lemma RunSpecs_build_not_Panicked:
  "RunSpecs_build ext w \<noteq> Panicked p w'"
  by (auto simp: RunSpecs_build_def Let_def and_then_def exitIfErr_def
           split: if_splits step.splits option.splits)

lemma RunSpecs_run_outcome:
  assumes "outputInterceptor w = Some i" and "deferred = client w"
  shows "(\<exists>b w'. RunSpecs_run ext d l r deferred p w = Next b w' \<and> released w')
       \<or> (\<exists>w'. RunSpecs_run ext d l r deferred p w = Exit (GINKGO_FOCUS_EXIT_CODE ext) w'
                \<and> last (trace w') = EvStdoutPassFocused
                \<and> EvInterceptorShutdown i \<in> set (trace w'))"
  using assms
  by (auto simp: RunSpecs_run_def Let_def run_deferred_def released_def split: option.splits)

text \<open>
  In a process that has either run the suite before or holds no interceptor and no
  client yet, \<^verbatim>\<open>RunSpecs\<close> never panics, and it ends in one of three ways: an exit with
  everything released, a return with everything released, or the exit taken after a
  passed run with focused specs.
\<close>

lemma RunSpecs_outcome:
  assumes "suiteDidRun w \<or> (outputInterceptor w = None \<and> client w = None)"
  shows "(\<exists>c w'. RunSpecs ext d args w = Exit c w' \<and> released w')
       \<or> (\<exists>b w'. RunSpecs ext d args w = Next b w' \<and> released w')
       \<or> (\<exists>w'. RunSpecs ext d args w = Exit (GINKGO_FOCUS_EXIT_CODE ext) w'
                \<and> last (trace w') = EvStdoutPassFocused)"
proof (cases "RunSpecs_configure ext args w")
  case (Exit c w')
  with RunSpecs_configure_Exit [OF Exit assms] show ?thesis
    by (simp add: RunSpecs_def RunSpecs_prepare_def)
next
  case (Panicked p w')
  then show ?thesis by (simp add: RunSpecs_configure_not_Panicked)
next
  case c: (Next l w1)
  show ?thesis
  proof (cases "RunSpecs_topology ext w1")
    case (Exit c' w')
    with c RunSpecs_topology_Exit [OF Exit] show ?thesis
      by (simp add: RunSpecs_def RunSpecs_prepare_def)
  next
    case (Panicked p w')
    then show ?thesis by (simp add: RunSpecs_topology_not_Panicked)
  next
    case t: (Next rd w2)
    show ?thesis
    proof (cases "RunSpecs_build ext (RunSpecs_writer w2)")
      case (Exit c' w')
      with c t RunSpecs_build_Exit [OF Exit] show ?thesis
        by (simp add: RunSpecs_def RunSpecs_prepare_def)
    next
      case (Panicked p w')
      then show ?thesis by (simp add: RunSpecs_build_not_Panicked)
    next
      case b: (Next p w3)
      from RunSpecs_topology_Next [OF t] RunSpecs_build_frame [OF b]
      obtain i where i: "outputInterceptor w3 = Some i" and d: "snd rd = client w3"
        by (auto simp: RunSpecs_writer_def split: if_splits)
      have "RunSpecs ext d args w = RunSpecs_run ext d l (fst rd) (snd rd) p w3"
        using c t b by (simp add: RunSpecs_def RunSpecs_prepare_def)
      with RunSpecs_run_outcome [OF i d, of ext d l "fst rd" p] show ?thesis
        by auto
    qed
  qed
qed

text \<open>
  C7. Every way out of \<^verbatim>\<open>RunSpecs\<close> is to shut the interceptor down and to close the
  client. The exit after a passed run with focused specs does not: with two
  parallel processes, a host that answers, a run that passes with focused specs and no
  marker in the environment, the process exits with 197 after shutting the interceptor
  down, and the client that was connected is still in \<^verbatim>\<open>client\<close> and has not been closed.
  Its \<^verbatim>\<open>Close\<close> was deferred, and \<^verbatim>\<open>os.Exit\<close> runs no deferred call.
\<close>

theorem RunSpecs_focus_exit_leaves_client_open:
  "RunSpecs focused_externals ''suite'' [VSuiteConfig parallel_config] fresh_world =
     Exit 197 (fresh_world\<lparr>suiteDidRun := True, suiteConfig := parallel_config,
       outputInterceptor := Some OSGlobalReassigningOutputInterceptor,
       client := Some (NewClient ''127.0.0.1:4000''),
       writerMode := WriterModeBufferOnly,
       trace := [EvClientConnect (NewClient ''127.0.0.1:4000''), EvSuiteBuildTree,
         EvSuiteRun \<lparr>run_description = ''suite'', run_suiteLabels = [],
           run_suitePath = ''/suite'', run_reporter = NoopReporter,
           run_writerMode = WriterModeBufferOnly,
           run_outputInterceptor = Some OSGlobalReassigningOutputInterceptor,
           run_client = Some (NewClient ''127.0.0.1:4000''),
           run_suiteConfig = parallel_config\<rparr>,
         EvInterceptorShutdown OSGlobalReassigningOutputInterceptor, EvValidateDeprecations,
         EvStdoutPassFocused]\<rparr>)
   \<and> \<not> released (world_of (RunSpecs focused_externals ''suite''
                              [VSuiteConfig parallel_config] fresh_world))"
  by (simp add: RunSpecs_defs focused_externals_def quiet_externals_def fresh_world_def
        parallel_config_def solo_config_def world_of_def released_def)

end
